theory Spec2Isabelle
  imports Main "HOL-Library.Char_ord" "HOL-Library.List_Lexorder"
begin

text \<open>
  A model of the budget planner's campaign status machine, spend aggregation, dayparting
  evaluator and periodic jobs. The database is an explicit \<open>store\<close> passed through every
  operation, the clock is an argument, and every exception is a value of type \<open>error\<close>:
  an operation that can raise before it writes returns \<open>error + result\<close>, one that can raise
  after a write returns its result or error together with the store it leaves behind.
\<close>

section \<open>Data model (choices.py, models.py, core/models.py)\<close>

text \<open>
  \<^verbatim>\<open>CampaignStatus\<close> (choices.py) is a \<^verbatim>\<open>TextChoices\<close> enumeration; \<open>status_value\<close> gives
  the string stored in the column.
\<close>

datatype CampaignStatus = ACTIVE | PAUSED | BUDGET_EXCEEDED | DAYPARTING_PAUSED | INACTIVE

fun status_value :: "CampaignStatus \<Rightarrow> string" where
  "status_value ACTIVE = ''active''"
| "status_value PAUSED = ''paused''"
| "status_value BUDGET_EXCEEDED = ''budget_exceeded''"
| "status_value DAYPARTING_PAUSED = ''dayparting_paused''"
| "status_value INACTIVE = ''inactive''"

text \<open>The exceptions the modelled code can raise.\<close>

datatype error =
    KeyError string
  | AttributeError string
  | DoesNotExist string
  | ValueError
  | DatabaseError

subsection \<open>The clock\<close>

text \<open>
  What the code reads off \<^verbatim>\<open>timezone.now()\<close>: the calendar date, the weekday and the time
  of day. One operation reads the clock several times; the model hands each operation a
  single reading \<open>now\<close>, so the clock does not advance inside an operation.
  \<^verbatim>\<open>datetime\<close> guarantees \<open>hour < 24\<close> and \<open>minute < 60\<close> and \<open>1 \<le> day\<close>.
\<close>

record date =
  year :: int
  month :: nat
  day :: nat

datatype weekday = Monday | Tuesday | Wednesday | Thursday | Friday | Saturday | Sunday

record datetime =
  dt_date :: date
  dt_weekday :: weekday
  hour :: nat
  minute :: nat

text \<open>Python compares dates by year, then month, then day.\<close>

definition date_ge :: "date \<Rightarrow> date \<Rightarrow> bool" where
  "date_ge d e \<longleftrightarrow>
     year e < year d \<or> (year e = year d \<and> (month e < month d \<or> (month e = month d \<and> day e \<le> day d)))"

text \<open>\<^verbatim>\<open>timezone.now().date()\<close> and \<^verbatim>\<open>timezone.now().replace(day=1).date()\<close>.\<close>

definition today_of :: "datetime \<Rightarrow> date" where
  "today_of now = dt_date now"

definition current_month_of :: "datetime \<Rightarrow> date" where
  "current_month_of now = dt_date (now\<lparr>dt_date := (dt_date now)\<lparr>day := 1\<rparr>\<rparr>)"

text \<open>\<^verbatim>\<open>now.strftime("%A").lower()\<close>: the lower-cased English weekday name.\<close>

fun strftime_A_lower :: "weekday \<Rightarrow> string" where
  "strftime_A_lower Monday = ''monday''"
| "strftime_A_lower Tuesday = ''tuesday''"
| "strftime_A_lower Wednesday = ''wednesday''"
| "strftime_A_lower Thursday = ''thursday''"
| "strftime_A_lower Friday = ''friday''"
| "strftime_A_lower Saturday = ''saturday''"
| "strftime_A_lower Sunday = ''sunday''"

text \<open>\<^verbatim>\<open>now.strftime("%H:%M")\<close>: two zero-padded decimal digits each.\<close>

definition digit_char :: "nat \<Rightarrow> char" where
  "digit_char n = ''0123456789'' ! (n mod 10)"

definition two_digits :: "nat \<Rightarrow> string" where
  "two_digits n = [digit_char (n div 10), digit_char n]"

definition strftime_HM :: "datetime \<Rightarrow> string" where
  "strftime_HM now = two_digits (hour now) @ '':'' @ two_digits (minute now)"

subsection \<open>Rows\<close>

text \<open>
  Currency columns are \<^verbatim>\<open>DecimalField(decimal_places=2)\<close>: exact fixed-point numbers,
  modelled as the integer number of hundredths. Primary keys are natural numbers.
  A dayparting window is a JSON object, modelled as the association list of its keys; the
  schedule is the JSON object of the weekday keys. Python's \<^verbatim>\<open>str\<close> comparison is the
  lexicographic order on \<open>string\<close>.
\<close>

type_synonym decimal = int

type_synonym DaypartingWindow = "(string \<times> string) list"

type_synonym DaypartingSchedule = "(string \<times> DaypartingWindow list) list"

record Brand =
  brand_id :: nat
  brand_name :: string
  daily_budget :: decimal
  monthly_budget :: decimal
  brand_daily_spend :: decimal
  brand_monthly_spend :: decimal
  is_active :: bool
  brand_created_at :: datetime
  brand_updated_at :: datetime

record Campaign =
  campaign_id :: nat
  campaign_brand_id :: nat
  campaign_name :: string
  status :: CampaignStatus
  daily_spend :: decimal
  monthly_spend :: decimal
  dayparting_enabled :: bool
  dayparting_schedule :: DaypartingSchedule
  created_at :: datetime
  updated_at :: datetime

record AdSpend =
  pk :: "nat option"
  spend_campaign_id :: nat
  amount :: decimal
  timestamp :: datetime
  description :: string

text \<open>The database: one list of rows per table, in the order the queries return them.\<close>

record store =
  brands :: "Brand list"
  campaigns :: "Campaign list"
  spends :: "AdSpend list"

section \<open>Brand properties (models.py, class Brand)\<close>

definition daily_budget_remaining :: "Brand \<Rightarrow> decimal" where
  "daily_budget_remaining b = max 0 (daily_budget b - brand_daily_spend b)"

definition monthly_budget_remaining :: "Brand \<Rightarrow> decimal" where
  "monthly_budget_remaining b = max 0 (monthly_budget b - brand_monthly_spend b)"

definition daily_budget_exceeded :: "Brand \<Rightarrow> bool" where
  "daily_budget_exceeded b \<longleftrightarrow> brand_daily_spend b \<ge> daily_budget b"

definition monthly_budget_exceeded :: "Brand \<Rightarrow> bool" where
  "monthly_budget_exceeded b \<longleftrightarrow> brand_monthly_spend b \<ge> monthly_budget b"

section \<open>Dayparting (models.py, \<^verbatim>\<open>Campaign.is_within_dayparting_window\<close>)\<close>

text \<open>\<^verbatim>\<open>window["start"]\<close>: subscripting a dict raises \<^verbatim>\<open>KeyError\<close> on a missing key.\<close>

definition getitem :: "(string \<times> 'v) list \<Rightarrow> string \<Rightarrow> error + 'v" where
  "getitem d k = (case map_of d k of None \<Rightarrow> Inl (KeyError k) | Some v \<Rightarrow> Inr v)"

text \<open>\<^verbatim>\<open>schedule.get(current_day, [])\<close>.\<close>

definition get_default :: "(string \<times> 'v) list \<Rightarrow> string \<Rightarrow> 'v \<Rightarrow> 'v" where
  "get_default d k dflt = (case map_of d k of None \<Rightarrow> dflt | Some v \<Rightarrow> v)"

text \<open>
  The \<^verbatim>\<open>for window in day_schedule\<close> loop. The chained comparison
  \<^verbatim>\<open>window["start"] <= current_time <= window["end"]\<close> reads \<^verbatim>\<open>window["start"]\<close> first and
  reads \<^verbatim>\<open>window["end"]\<close> only when the first comparison holds.
\<close>

fun window_loop :: "string \<Rightarrow> DaypartingWindow list \<Rightarrow> error + bool" where
  "window_loop current_time [] = Inr False"
| "window_loop current_time (window # rest) =
     (case getitem window ''start'' of
        Inl e \<Rightarrow> Inl e
      | Inr start \<Rightarrow>
          if start \<le> current_time then
            (case getitem window ''end'' of
               Inl e \<Rightarrow> Inl e
             | Inr end \<Rightarrow> if current_time \<le> end then Inr True else window_loop current_time rest)
          else window_loop current_time rest)"

definition is_within_dayparting_window :: "datetime \<Rightarrow> Campaign \<Rightarrow> error + bool" where
  "is_within_dayparting_window now self =
     (if \<not> dayparting_enabled self then Inr True
      else
        let current_day = strftime_A_lower (dt_weekday now);
            current_time = strftime_HM now;
            day_schedule = get_default (dayparting_schedule self) current_day []
        in window_loop current_time day_schedule)"



section \<open>Persistence\<close>

text \<open>
  \<^verbatim>\<open>Campaign.objects.get(id=...)\<close> and the related-object access \<^verbatim>\<open>campaign.brand\<close>: the
  row with that primary key, \<^verbatim>\<open>DoesNotExist\<close> when there is none.
\<close>

definition Campaign_objects_get :: "store \<Rightarrow> nat \<Rightarrow> error + Campaign" where
  "Campaign_objects_get s cid =
     (case find (\<lambda>c. campaign_id c = cid) (campaigns s) of
        None \<Rightarrow> Inl (DoesNotExist ''Campaign'')
      | Some c \<Rightarrow> Inr c)"

definition Campaign_brand :: "store \<Rightarrow> Campaign \<Rightarrow> error + Brand" where
  "Campaign_brand s self =
     (case find (\<lambda>b. brand_id b = campaign_brand_id self) (brands s) of
        None \<Rightarrow> Inl (DoesNotExist ''Brand'')
      | Some b \<Rightarrow> Inr b)"

text \<open>
  \<^verbatim>\<open>self.save(update_fields=["status", "updated_at"])\<close>: \<^verbatim>\<open>updated_at\<close> is \<^verbatim>\<open>auto_now\<close>, so
  it is set to the clock; the \<^verbatim>\<open>UPDATE\<close> writes the two columns of the row with the
  object's primary key and nothing else. Django raises \<^verbatim>\<open>DatabaseError\<close> when a save with
  \<^verbatim>\<open>update_fields\<close> affects no row.
\<close>

definition Campaign_save_status :: "datetime \<Rightarrow> Campaign \<Rightarrow> store \<Rightarrow> error + (Campaign \<times> store)" where
  "Campaign_save_status now self s =
     (if \<exists>r \<in> set (campaigns s). campaign_id r = campaign_id self then
        Inr (self\<lparr>updated_at := now\<rparr>,
             s\<lparr>campaigns :=
                 map (\<lambda>r. if campaign_id r = campaign_id self
                          then r\<lparr>status := status self, updated_at := now\<rparr> else r)
                     (campaigns s)\<rparr>)
      else Inl DatabaseError)"

text \<open>\<^verbatim>\<open>save(update_fields=["daily_spend", "monthly_spend", "updated_at"])\<close> on a campaign and on a brand.\<close>

definition Campaign_save_spend :: "datetime \<Rightarrow> Campaign \<Rightarrow> store \<Rightarrow> error + (Campaign \<times> store)" where
  "Campaign_save_spend now self s =
     (if \<exists>r \<in> set (campaigns s). campaign_id r = campaign_id self then
        Inr (self\<lparr>updated_at := now\<rparr>,
             s\<lparr>campaigns :=
                 map (\<lambda>r. if campaign_id r = campaign_id self
                          then r\<lparr>daily_spend := daily_spend self,
                                 monthly_spend := monthly_spend self, updated_at := now\<rparr>
                          else r)
                     (campaigns s)\<rparr>)
      else Inl DatabaseError)"

definition Brand_save_spend :: "datetime \<Rightarrow> Brand \<Rightarrow> store \<Rightarrow> error + (Brand \<times> store)" where
  "Brand_save_spend now self s =
     (if \<exists>r \<in> set (brands s). brand_id r = brand_id self then
        Inr (self\<lparr>brand_updated_at := now\<rparr>,
             s\<lparr>brands :=
                 map (\<lambda>r. if brand_id r = brand_id self
                          then r\<lparr>brand_daily_spend := brand_daily_spend self,
                                 brand_monthly_spend := brand_monthly_spend self,
                                 brand_updated_at := now\<rparr>
                          else r)
                     (brands s)\<rparr>)
      else Inl DatabaseError)"

section \<open>The status machine (models.py, class Campaign)\<close>

text \<open>
  \<^verbatim>\<open>should_be_active\<close>: a predicate, no writes. \<^verbatim>\<open>and\<close> does not call
  \<^verbatim>\<open>is_within_dayparting_window\<close> when dayparting is disabled.
\<close>

definition should_be_active :: "datetime \<Rightarrow> Campaign \<Rightarrow> store \<Rightarrow> error + bool" where
  "should_be_active now self s =
     (case Campaign_brand s self of
        Inl e \<Rightarrow> Inl e
      | Inr brand \<Rightarrow>
          if \<not> is_active brand then Inr False
          else if daily_budget_exceeded brand \<or> monthly_budget_exceeded brand then Inr False
          else
            (case (if dayparting_enabled self
                   then map_sum id Not (is_within_dayparting_window now self)
                   else Inr False) of
               Inl e \<Rightarrow> Inl e
             | Inr outside \<Rightarrow>
                 if outside then Inr False
                 else Inr (status self \<notin> set [INACTIVE, PAUSED])))"

text \<open>
  \<^verbatim>\<open>update_status\<close>: the \<^verbatim>\<open>if\<close>/\<^verbatim>\<open>elif\<close> chain assigns \<^verbatim>\<open>self.status\<close>, then the object is
  saved whichever branch ran. An exception in the chain leaves the database as it was.
\<close>

definition update_status :: "datetime \<Rightarrow> Campaign \<Rightarrow> store \<Rightarrow> error + (Campaign \<times> store)" where
  "update_status now self s =
     (case Campaign_brand s self of
        Inl e \<Rightarrow> Inl e
      | Inr brand \<Rightarrow>
          (case
             (if \<not> is_active brand then Inr (self\<lparr>status := INACTIVE\<rparr>)
              else if daily_budget_exceeded brand \<or> monthly_budget_exceeded brand
                then Inr (self\<lparr>status := BUDGET_EXCEEDED\<rparr>)
              else
                (case (if dayparting_enabled self
                       then map_sum id Not (is_within_dayparting_window now self)
                       else Inr False) of
                   Inl e \<Rightarrow> Inl e
                 | Inr outside \<Rightarrow>
                     if outside then Inr (self\<lparr>status := DAYPARTING_PAUSED\<rparr>)
                     else if status self \<in> set [BUDGET_EXCEEDED, DAYPARTING_PAUSED]
                       then Inr (self\<lparr>status := ACTIVE\<rparr>)
                     else Inr self))
           of
             Inl e \<Rightarrow> Inl e
           | Inr self' \<Rightarrow> Campaign_save_status now self' s))"

text \<open>
  The status the \<^verbatim>\<open>if\<close>/\<^verbatim>\<open>elif\<close> chain of \<^verbatim>\<open>update_status\<close> leaves in \<^verbatim>\<open>self.status\<close>,
  on its own; \<open>update_status_unfold\<close> below proves that \<open>update_status\<close> saves exactly
  this status.
\<close>

definition assigned_status :: "datetime \<Rightarrow> Brand \<Rightarrow> Campaign \<Rightarrow> error + CampaignStatus" where
  "assigned_status now brand self =
     (if \<not> is_active brand then Inr INACTIVE
      else if daily_budget_exceeded brand \<or> monthly_budget_exceeded brand then Inr BUDGET_EXCEEDED
      else
        (case (if dayparting_enabled self
               then map_sum id Not (is_within_dayparting_window now self)
               else Inr False) of
           Inl e \<Rightarrow> Inl e
         | Inr outside \<Rightarrow>
             if outside then Inr DAYPARTING_PAUSED
             else if status self \<in> set [BUDGET_EXCEEDED, DAYPARTING_PAUSED] then Inr ACTIVE
             else Inr (status self)))"

section \<open>Spend aggregation (models.py, class AdSpend)\<close>

text \<open>
  \<^verbatim>\<open>aggregate(total=Sum("amount"))["total"]\<close> is \<^verbatim>\<open>None\<close> over no rows, and
  \<^verbatim>\<open>total or Decimal("0")\<close> replaces \<^verbatim>\<open>None\<close> and a zero total by zero.
\<close>

definition Sum_amount :: "AdSpend list \<Rightarrow> decimal option" where
  "Sum_amount rows = (if rows = [] then None else Some (sum_list (map amount rows)))"

definition or_zero :: "decimal option \<Rightarrow> decimal" where
  "or_zero agg = (case agg of None \<Rightarrow> 0 | Some v \<Rightarrow> if v = 0 then 0 else v)"

text \<open>
  The four querysets: \<^verbatim>\<open>filter(campaign=c, timestamp__date=today)\<close>,
  \<^verbatim>\<open>filter(campaign=c, timestamp__date__gte=current_month)\<close>, and the same two with
  \<^verbatim>\<open>campaign__brand=b\<close>, which joins the campaign table.
\<close>

definition campaign_spends_on :: "store \<Rightarrow> nat \<Rightarrow> date \<Rightarrow> AdSpend list" where
  "campaign_spends_on s cid d =
     filter (\<lambda>e. spend_campaign_id e = cid \<and> dt_date (timestamp e) = d) (spends s)"

definition campaign_spends_since :: "store \<Rightarrow> nat \<Rightarrow> date \<Rightarrow> AdSpend list" where
  "campaign_spends_since s cid d =
     filter (\<lambda>e. spend_campaign_id e = cid \<and> date_ge (dt_date (timestamp e)) d) (spends s)"

definition spend_of_brand :: "store \<Rightarrow> nat \<Rightarrow> AdSpend \<Rightarrow> bool" where
  "spend_of_brand s bid e \<longleftrightarrow>
     (\<exists>c \<in> set (campaigns s). campaign_id c = spend_campaign_id e \<and> campaign_brand_id c = bid)"

definition brand_spends_on :: "store \<Rightarrow> nat \<Rightarrow> date \<Rightarrow> AdSpend list" where
  "brand_spends_on s bid d =
     filter (\<lambda>e. spend_of_brand s bid e \<and> dt_date (timestamp e) = d) (spends s)"

definition brand_spends_since :: "store \<Rightarrow> nat \<Rightarrow> date \<Rightarrow> AdSpend list" where
  "brand_spends_since s bid d =
     filter (\<lambda>e. spend_of_brand s bid e \<and> date_ge (dt_date (timestamp e)) d) (spends s)"



text \<open>\<^verbatim>\<open>update_spend_totals\<close>: the campaign's two totals are saved first, then the brand's.\<close>

definition update_spend_totals :: "datetime \<Rightarrow> AdSpend \<Rightarrow> store \<Rightarrow> (error + unit) \<times> store" where
  "update_spend_totals now self s =
     (let today = today_of now; current_month = current_month_of now in
      case Campaign_objects_get s (spend_campaign_id self) of
        Inl e \<Rightarrow> (Inl e, s)
      | Inr campaign \<Rightarrow>
          let daily_total = or_zero (Sum_amount (campaign_spends_on s (campaign_id campaign) today));
              monthly_total = or_zero (Sum_amount (campaign_spends_since s (campaign_id campaign) current_month))
          in
          (case Campaign_save_spend now
                  (campaign\<lparr>daily_spend := daily_total, monthly_spend := monthly_total\<rparr>) s of
             Inl e \<Rightarrow> (Inl e, s)
           | Inr (campaign', s1) \<Rightarrow>
               (case Campaign_brand s1 campaign' of
                  Inl e \<Rightarrow> (Inl e, s1)
                | Inr brand \<Rightarrow>
                    let brand_daily_total = or_zero (Sum_amount (brand_spends_on s1 (brand_id brand) today));
                        brand_monthly_total =
                          or_zero (Sum_amount (brand_spends_since s1 (brand_id brand) current_month))
                    in
                    (case Brand_save_spend now
                            (brand\<lparr>brand_daily_spend := brand_daily_total,
                                   brand_monthly_spend := brand_monthly_total\<rparr>) s1 of
                       Inl e \<Rightarrow> (Inl e, s1)
                     | Inr (brand', s2) \<Rightarrow> (Inr (), s2)))))"

text \<open>
  \<^verbatim>\<open>super().save()\<close>: a new object (no primary key) is inserted with a fresh key and
  \<^verbatim>\<open>timestamp\<close> set by \<^verbatim>\<open>auto_now_add\<close>; an object with a key replaces its row. Django's
  \<^verbatim>\<open>Model.save\<close> runs no field validator.
\<close>

definition next_pk :: "store \<Rightarrow> nat" where
  "next_pk s = Suc (fold max (map (\<lambda>e. case pk e of None \<Rightarrow> 0 | Some k \<Rightarrow> k) (spends s)) 0)"

definition Model_save :: "datetime \<Rightarrow> AdSpend \<Rightarrow> store \<Rightarrow> AdSpend \<times> store" where
  "Model_save now self s =
     (case pk self of
        None \<Rightarrow>
          let row = self\<lparr>pk := Some (next_pk s), timestamp := now\<rparr>
          in (row, s\<lparr>spends := spends s @ [row]\<rparr>)
      | Some k \<Rightarrow>
          if \<exists>r \<in> set (spends s). pk r = Some k
          then (self, s\<lparr>spends := map (\<lambda>r. if pk r = Some k then self else r) (spends s)\<rparr>)
          else let row = self\<lparr>timestamp := now\<rparr> in (row, s\<lparr>spends := spends s @ [row]\<rparr>))"

definition AdSpend_save :: "datetime \<Rightarrow> AdSpend \<Rightarrow> store \<Rightarrow> (error + AdSpend) \<times> store" where
  "AdSpend_save now self s =
     (let is_new = (pk self = None);
          (self', s1) = Model_save now self s
      in if is_new then
           (case update_spend_totals now self' s1 of
              (Inl e, s2) \<Rightarrow> (Inl e, s2)
            | (Inr _, s2) \<Rightarrow> (Inr self', s2))
         else (Inr self', s1))"

text \<open>\<^verbatim>\<open>AdSpend.objects.create(campaign=..., amount=..., description=...)\<close>.\<close>

definition AdSpend_objects_create ::
  "datetime \<Rightarrow> Campaign \<Rightarrow> decimal \<Rightarrow> string \<Rightarrow> store \<Rightarrow> (error + AdSpend) \<times> store" where
  "AdSpend_objects_create now campaign amt descr s =
     AdSpend_save now
       \<lparr>pk = None, spend_campaign_id = campaign_id campaign, amount = amt,
        timestamp = now, description = descr\<rparr> s"

text \<open>
  The validator declared on \<^verbatim>\<open>AdSpend.amount\<close>, \<^verbatim>\<open>MinValueValidator(0)\<close>. Django runs field
  validators in \<^verbatim>\<open>full_clean()\<close>, which model forms (the admin) call and which
  \<^verbatim>\<open>save()\<close> and \<^verbatim>\<open>objects.create()\<close> do not.
\<close>

definition amount_validators :: "decimal \<Rightarrow> bool" where
  "amount_validators amt \<longleftrightarrow> 0 \<le> amt"

section \<open>Recording a spend (utils.py, \<^verbatim>\<open>record_ad_spend\<close>)\<close>

text \<open>
  \<^verbatim>\<open>amount\<close> is the value of \<^verbatim>\<open>Decimal(str(amount))\<close>. The \<^verbatim>\<open>except\<close> clause turns
  \<^verbatim>\<open>Campaign.DoesNotExist\<close>, wherever in the \<^verbatim>\<open>try\<close> block it is raised, into \<^verbatim>\<open>ValueError\<close>.
\<close>

definition except_Campaign_DoesNotExist :: "error \<Rightarrow> error" where
  "except_Campaign_DoesNotExist e = (if e = DoesNotExist ''Campaign'' then ValueError else e)"

definition record_ad_spend ::
  "datetime \<Rightarrow> nat \<Rightarrow> decimal \<Rightarrow> string \<Rightarrow> store \<Rightarrow> (error + AdSpend) \<times> store" where
  "record_ad_spend now cid amt descr s =
     (case Campaign_objects_get s cid of
        Inl e \<Rightarrow> (Inl (except_Campaign_DoesNotExist e), s)
      | Inr campaign \<Rightarrow>
          (case AdSpend_objects_create now campaign amt descr s of
             (Inl e, s1) \<Rightarrow> (Inl (except_Campaign_DoesNotExist e), s1)
           | (Inr spend, s1) \<Rightarrow>
               (case Campaign_objects_get s1 (campaign_id campaign) of
                  Inl e \<Rightarrow> (Inl (except_Campaign_DoesNotExist e), s1)
                | Inr refreshed \<Rightarrow>
                    (case update_status now refreshed s1 of
                       Inl e \<Rightarrow> (Inl (except_Campaign_DoesNotExist e), s1)
                     | Inr (campaign', s2) \<Rightarrow> (Inr spend, s2)))))"

section \<open>Periodic jobs (tasks.py)\<close>

subsection \<open>\<^verbatim>\<open>check_and_update_campaign_statuses\<close>\<close>

record StatusChanges =
  activated :: nat
  budget_paused :: nat
  dayparting_paused :: nat
  deactivated :: nat

text \<open>
  The task compares \<^verbatim>\<open>campaign.status\<close> with \<^verbatim>\<open>Campaign.STATUS_ACTIVE\<close>,
  \<^verbatim>\<open>Campaign.STATUS_BUDGET_EXCEEDED\<close>, \<^verbatim>\<open>Campaign.STATUS_DAYPARTING_PAUSED\<close> and
  \<^verbatim>\<open>Campaign.STATUS_INACTIVE\<close>: attributes looked up on the class \<^verbatim>\<open>Campaign\<close>.
  \<open>Campaign_class_dict\<close> lists what the class body in models.py and its abstract bases
  in core/models.py bind (fields, the manager, the methods); the members every
  \<^verbatim>\<open>models.Model\<close> has (\<^verbatim>\<open>save\<close>, \<^verbatim>\<open>pk\<close>, \<^verbatim>\<open>DoesNotExist\<close> and so on) are left out, none
  being a status constant. Reading a name the class does not have raises
  \<^verbatim>\<open>AttributeError\<close>.
\<close>

datatype attr_value = Str string | Member

definition Campaign_class_dict :: "(string \<times> attr_value) list" where
  "Campaign_class_dict =
     [(''id'', Member), (''created_at'', Member), (''updated_at'', Member),
      (''brand'', Member), (''name'', Member), (''status'', Member),
      (''daily_spend'', Member), (''monthly_spend'', Member),
      (''dayparting_enabled'', Member), (''dayparting_schedule'', Member),
      (''objects'', Member), (''is_within_dayparting_window'', Member),
      (''should_be_active'', Member), (''update_status'', Member)]"

definition Campaign_getattr :: "string \<Rightarrow> error + attr_value" where
  "Campaign_getattr name =
     (case map_of Campaign_class_dict name of
        None \<Rightarrow> Inl (AttributeError name)
      | Some v \<Rightarrow> Inr v)"

text \<open>\<^verbatim>\<open>campaign.status == v\<close>: the status is a string; it equals only an equal string.\<close>

definition status_eq :: "CampaignStatus \<Rightarrow> attr_value \<Rightarrow> bool" where
  "status_eq st v = (case v of Str x \<Rightarrow> status_value st = x | Member \<Rightarrow> False)"

text \<open>The body of \<^verbatim>\<open>if old_status != campaign.status:\<close> with its \<^verbatim>\<open>if\<close>/\<^verbatim>\<open>elif\<close> chain.\<close>

definition track_change :: "CampaignStatus \<Rightarrow> Campaign \<Rightarrow> StatusChanges \<Rightarrow> error + StatusChanges" where
  "track_change old_status campaign sc =
     (if old_status \<noteq> status campaign then
        (case Campaign_getattr ''STATUS_ACTIVE'' of
           Inl e \<Rightarrow> Inl e
         | Inr v1 \<Rightarrow>
             if status_eq (status campaign) v1 then Inr (sc\<lparr>activated := activated sc + 1\<rparr>)
             else
               (case Campaign_getattr ''STATUS_BUDGET_EXCEEDED'' of
                  Inl e \<Rightarrow> Inl e
                | Inr v2 \<Rightarrow>
                    if status_eq (status campaign) v2
                    then Inr (sc\<lparr>budget_paused := budget_paused sc + 1\<rparr>)
                    else
                      (case Campaign_getattr ''STATUS_DAYPARTING_PAUSED'' of
                         Inl e \<Rightarrow> Inl e
                       | Inr v3 \<Rightarrow>
                           if status_eq (status campaign) v3
                           then Inr (sc\<lparr>dayparting_paused := dayparting_paused sc + 1\<rparr>)
                           else
                             (case Campaign_getattr ''STATUS_INACTIVE'' of
                                Inl e \<Rightarrow> Inl e
                              | Inr v4 \<Rightarrow>
                                  if status_eq (status campaign) v4
                                  then Inr (sc\<lparr>deactivated := deactivated sc + 1\<rparr>)
                                  else Inr sc))))
      else Inr sc)"

text \<open>
  The \<^verbatim>\<open>for campaign in campaigns\<close> loop over the rows read when the loop starts. An
  exception ends the task; what earlier iterations saved stays saved.
\<close>

fun status_sweep_loop ::
  "datetime \<Rightarrow> Campaign list \<Rightarrow> StatusChanges \<Rightarrow> store \<Rightarrow> (error + StatusChanges) \<times> store" where
  "status_sweep_loop now [] sc s = (Inr sc, s)"
| "status_sweep_loop now (campaign # rest) sc s =
     (let old_status = status campaign in
      case update_status now campaign s of
        Inl e \<Rightarrow> (Inl e, s)
      | Inr (campaign', s') \<Rightarrow>
          (case track_change old_status campaign' sc of
             Inl e \<Rightarrow> (Inl e, s')
           | Inr sc' \<Rightarrow> status_sweep_loop now rest sc' s'))"

definition check_and_update_campaign_statuses ::
  "datetime \<Rightarrow> store \<Rightarrow> (error + StatusChanges) \<times> store" where
  "check_and_update_campaign_statuses now s =
     status_sweep_loop now (campaigns s)
       \<lparr>activated = 0, budget_paused = 0, dayparting_paused = 0, deactivated = 0\<rparr> s"

subsection \<open>\<^verbatim>\<open>recalculate_spend_totals\<close>\<close>




section \<open>Monthly reset (\<^verbatim>\<open>commands/reset_monthly_budgets.py\<close>, Command.handle)\<close>

text \<open>What the command writes to its output: the three counts.\<close>

record report =
  brands_updated :: nat
  campaigns_updated :: nat
  reactivated_count :: nat

text \<open>
  \<^verbatim>\<open>Brand.objects.update(monthly_spend=Decimal("0"))\<close> and the same on campaigns: one
  \<^verbatim>\<open>UPDATE\<close> of that column on every row, returning the number of rows.
\<close>

definition Brand_objects_update_monthly_spend :: "store \<Rightarrow> nat \<times> store" where
  "Brand_objects_update_monthly_spend s =
     (length (brands s), s\<lparr>brands := map (\<lambda>b. b\<lparr>brand_monthly_spend := 0\<rparr>) (brands s)\<rparr>)"

definition Campaign_objects_update_monthly_spend :: "store \<Rightarrow> nat \<times> store" where
  "Campaign_objects_update_monthly_spend s =
     (length (campaigns s), s\<lparr>campaigns := map (\<lambda>c. c\<lparr>monthly_spend := 0\<rparr>) (campaigns s)\<rparr>)"

text \<open>
  The loop counting reactivations. The condition is
  \<^verbatim>\<open>old_status == BUDGET_EXCEEDED and (not dry_run and campaign.status == ACTIVE or dry_run and campaign.should_be_active())\<close>;
  \<^verbatim>\<open>should_be_active\<close> is called only when the tests before it let it be reached.
\<close>

fun reactivation_loop ::
  "datetime \<Rightarrow> bool \<Rightarrow> Campaign list \<Rightarrow> nat \<Rightarrow> store \<Rightarrow> (error + nat) \<times> store" where
  "reactivation_loop now dry_run [] reactivated s = (Inr reactivated, s)"
| "reactivation_loop now dry_run (campaign # rest) reactivated s =
     (let old_status = status campaign in
      case (if \<not> dry_run then update_status now campaign s else Inr (campaign, s)) of
        Inl e \<Rightarrow> (Inl e, s)
      | Inr (campaign', s') \<Rightarrow>
          (case (if old_status = BUDGET_EXCEEDED then
                   (if \<not> dry_run \<and> status campaign' = ACTIVE then Inr True
                    else if dry_run then should_be_active now campaign' s'
                    else Inr False)
                 else Inr False) of
             Inl e \<Rightarrow> (Inl e, s')
           | Inr counted \<Rightarrow>
               reactivation_loop now dry_run rest
                 (if counted then reactivated + 1 else reactivated) s'))"

definition handle :: "datetime \<Rightarrow> bool \<Rightarrow> store \<Rightarrow> (error + report) \<times> store" where
  "handle now dry_run s =
     (let (n_brands, s1) =
            (if \<not> dry_run then Brand_objects_update_monthly_spend s else (length (brands s), s));
          (n_campaigns, s2) =
            (if \<not> dry_run then Campaign_objects_update_monthly_spend s1 else (length (campaigns s1), s1))
      in case reactivation_loop now dry_run (campaigns s2) 0 s2 of
           (Inl e, s3) \<Rightarrow> (Inl e, s3)
         | (Inr n, s3) \<Rightarrow>
             (Inr \<lparr>brands_updated = n_brands, campaigns_updated = n_campaigns,
                   reactivated_count = n\<rparr>, s3))"

section \<open>Example data\<close>

text \<open>
  Monday 17 June 2024. A brand with a daily budget of 100.00 and a monthly budget of
  1000.00, and a campaign of brand 1 whose schedule opens Mondays from 09:00 to 17:00.
\<close>

definition ex_time :: "nat \<Rightarrow> nat \<Rightarrow> datetime" where
  "ex_time h m = \<lparr>dt_date = \<lparr>year = 2024, month = 6, day = 17\<rparr>, dt_weekday = Monday,
                  hour = h, minute = m\<rparr>"

definition ex_brand :: "bool \<Rightarrow> decimal \<Rightarrow> decimal \<Rightarrow> Brand" where
  "ex_brand active spent_today spent_month =
     \<lparr>brand_id = 1, brand_name = ''acme'', daily_budget = 10000, monthly_budget = 100000,
      brand_daily_spend = spent_today, brand_monthly_spend = spent_month, is_active = active,
      brand_created_at = ex_time 0 0, brand_updated_at = ex_time 0 0\<rparr>"

definition ex_campaign :: "nat \<Rightarrow> CampaignStatus \<Rightarrow> bool \<Rightarrow> Campaign" where
  "ex_campaign cid st dayparting =
     \<lparr>campaign_id = cid, campaign_brand_id = 1, campaign_name = ''summer'', status = st,
      daily_spend = 0, monthly_spend = 0, dayparting_enabled = dayparting,
      dayparting_schedule = [(''monday'', [[(''start'', ''09:00''), (''end'', ''17:00'')]])],
      created_at = ex_time 0 0, updated_at = ex_time 0 0\<rparr>"

text \<open>Tuesday 18 June 2024, 10:00.\<close>

definition ex_tuesday :: datetime where
  "ex_tuesday = \<lparr>dt_date = \<lparr>year = 2024, month = 6, day = 18\<rparr>, dt_weekday = Tuesday,
                 hour = 10, minute = 0\<rparr>"



text \<open>
  Brand 1 has spent 1200.00 of its monthly 1000.00 and nothing today; of its three campaigns
  the first is \<open>BUDGET_EXCEEDED\<close>.
\<close>

definition ex_exceeded_store :: store where
  "ex_exceeded_store =
     \<lparr>brands = [ex_brand True 0 120000],
      campaigns = [ex_campaign 1 BUDGET_EXCEEDED False, ex_campaign 2 ACTIVE False,
                   ex_campaign 3 PAUSED False],
      spends = []\<rparr>"

lemmas status_machine_defs =
  update_status_def Campaign_brand_def Campaign_save_status_def
  daily_budget_exceeded_def monthly_budget_exceeded_def
  is_within_dayparting_window_def strftime_HM_def two_digits_def digit_char_def
  get_default_def getitem_def

lemmas ex_defs = ex_time_def ex_brand_def ex_campaign_def

lemmas sweep_defs =
  check_and_update_campaign_statuses_def track_change_def Campaign_getattr_def
  Campaign_class_dict_def status_eq_def

lemmas reset_defs =
  handle_def should_be_active_def Brand_objects_update_monthly_spend_def
  Campaign_objects_update_monthly_spend_def

lemmas record_defs =
  record_ad_spend_def Campaign_objects_get_def AdSpend_objects_create_def AdSpend_save_def
  Model_save_def next_pk_def update_spend_totals_def Campaign_save_spend_def Brand_save_spend_def
  Sum_amount_def or_zero_def campaign_spends_on_def campaign_spends_since_def
  brand_spends_on_def brand_spends_since_def spend_of_brand_def today_of_def current_month_of_def
  date_ge_def except_Campaign_DoesNotExist_def


section \<open>The status machine: precedence, sticky pause, idempotence, frame\<close>

lemma Campaign_save_status_Inr:
  "\<exists>r \<in> set (campaigns s). campaign_id r = campaign_id c \<Longrightarrow>
   Campaign_save_status now c s =
     Inr (c\<lparr>updated_at := now\<rparr>,
          s\<lparr>campaigns := map (\<lambda>r. if campaign_id r = campaign_id c
                                   then r\<lparr>status := status c, updated_at := now\<rparr> else r)
                              (campaigns s)\<rparr>)"
  by (simp add: Campaign_save_status_def)

text \<open>
  C1. For a stored campaign whose owning brand is inactive, \<open>update_status\<close> succeeds and
  sets the status to \<open>INACTIVE\<close>, in the object and in the stored row, whatever the
  brand's budgets and the campaign's dayparting schedule are: the brand-inactive test is
  the first of the chain, so the budget and dayparting tests are not even evaluated.
\<close>

theorem brand_inactive_sets_INACTIVE:
  assumes "Campaign_brand s self = Inr brand"
    and "\<not> is_active brand"
    and "\<exists>r \<in> set (campaigns s). campaign_id r = campaign_id self"
  shows "\<exists>self' s'. update_status now self s = Inr (self', s')
           \<and> status self' = INACTIVE
           \<and> (\<forall>r \<in> set (campaigns s'). campaign_id r = campaign_id self \<longrightarrow> status r = INACTIVE)"
proof -
  let ?c = "self\<lparr>status := INACTIVE\<rparr>"
  have stored: "\<exists>r \<in> set (campaigns s). campaign_id r = campaign_id ?c"
    using assms(3) by simp
  have "update_status now self s = Campaign_save_status now ?c s"
    using assms(1,2) by (simp add: update_status_def)
  then show ?thesis
    using Campaign_save_status_Inr [OF stored, of now] by auto
qed

text \<open>
  The witness: the brand is inactive, both of its budgets are exceeded, and at 20:30 the
  campaign is outside its Monday window.
\<close>

theorem brand_inactive_sets_INACTIVE_witness:
  "Campaign_brand \<lparr>brands = [ex_brand False 12000 120000], campaigns = [ex_campaign 1 ACTIVE True], spends = []\<rparr>
       (ex_campaign 1 ACTIVE True) = Inr (ex_brand False 12000 120000)
   \<and> \<not> is_active (ex_brand False 12000 120000)
   \<and> daily_budget_exceeded (ex_brand False 12000 120000)
   \<and> monthly_budget_exceeded (ex_brand False 12000 120000)
   \<and> is_within_dayparting_window (ex_time 20 30) (ex_campaign 1 ACTIVE True) = Inr False
   \<and> (\<exists>self' s'. update_status (ex_time 20 30) (ex_campaign 1 ACTIVE True)
          \<lparr>brands = [ex_brand False 12000 120000], campaigns = [ex_campaign 1 ACTIVE True], spends = []\<rparr>
            = Inr (self', s')
        \<and> status self' = INACTIVE
        \<and> (\<forall>r \<in> set (campaigns s'). campaign_id r = campaign_id (ex_campaign 1 ACTIVE True) \<longrightarrow> status r = INACTIVE))"
proof -
  let ?s = "\<lparr>brands = [ex_brand False 12000 120000], campaigns = [ex_campaign 1 ACTIVE True], spends = []\<rparr>"
  have b: "Campaign_brand ?s (ex_campaign 1 ACTIVE True) = Inr (ex_brand False 12000 120000)"
    by (simp add: Campaign_brand_def ex_brand_def ex_campaign_def)
  have i: "\<not> is_active (ex_brand False 12000 120000)"
    by (simp add: ex_brand_def)
  have r: "\<exists>r \<in> set (campaigns ?s). campaign_id r = campaign_id (ex_campaign 1 ACTIVE True)"
    by simp
  have d: "daily_budget_exceeded (ex_brand False 12000 120000)"
    by (simp add: daily_budget_exceeded_def ex_brand_def)
  have m: "monthly_budget_exceeded (ex_brand False 12000 120000)"
    by (simp add: monthly_budget_exceeded_def ex_brand_def)
  have w: "is_within_dayparting_window (ex_time 20 30) (ex_campaign 1 ACTIVE True) = Inr False"
    by (simp add: is_within_dayparting_window_def ex_campaign_def ex_time_def strftime_HM_def
        two_digits_def digit_char_def get_default_def getitem_def)
  show ?thesis
    using brand_inactive_sets_INACTIVE [OF b i r, of "ex_time 20 30"] b i d m w by blast
qed

lemma update_status_unfold:
  "update_status now self s =
     (case Campaign_brand s self of
        Inl e \<Rightarrow> Inl e
      | Inr brand \<Rightarrow>
          (case assigned_status now brand self of
             Inl e \<Rightarrow> Inl e
           | Inr st \<Rightarrow> Campaign_save_status now (self\<lparr>status := st\<rparr>) s))"
  by (simp add: update_status_def assigned_status_def split: sum.splits)

lemma update_status_InrD:
  assumes "update_status now self s = Inr (self', s')"
  obtains brand st where
    "Campaign_brand s self = Inr brand"
    "assigned_status now brand self = Inr st"
    "\<exists>r \<in> set (campaigns s). campaign_id r = campaign_id self"
    "self' = self\<lparr>status := st, updated_at := now\<rparr>"
    "s' = s\<lparr>campaigns := map (\<lambda>r. if campaign_id r = campaign_id self
                                   then r\<lparr>status := st, updated_at := now\<rparr> else r)
                              (campaigns s)\<rparr>"
  using assms
  by (auto simp: update_status_unfold Campaign_save_status_def split: sum.splits if_splits)

lemma is_within_dayparting_window_cong:
  assumes "dt_weekday now2 = dt_weekday now" "hour now2 = hour now" "minute now2 = minute now"
    and "dayparting_enabled c2 = dayparting_enabled c" "dayparting_schedule c2 = dayparting_schedule c"
  shows "is_within_dayparting_window now2 c2 = is_within_dayparting_window now c"
  using assms by (simp add: is_within_dayparting_window_def strftime_HM_def)

lemma assigned_status_again:
  assumes "assigned_status now brand self = Inr st"
    and "dt_weekday now2 = dt_weekday now" "hour now2 = hour now" "minute now2 = minute now"
  shows "assigned_status now2 brand (self\<lparr>status := st, updated_at := u\<rparr>) = Inr st"
proof -
  have w: "is_within_dayparting_window now2 (self\<lparr>status := st, updated_at := u\<rparr>)
             = is_within_dayparting_window now self"
    using assms(2-4) by (intro is_within_dayparting_window_cong) simp_all
  show ?thesis
    using assms(1) unfolding assigned_status_def w
    by (auto split: if_splits sum.splits)
qed

lemma stored_after_map:
  assumes "\<And>r. campaign_id (f r) = campaign_id r"
  shows "(\<exists>r \<in> set (map f xs). campaign_id r = k) \<longleftrightarrow> (\<exists>r \<in> set xs. campaign_id r = k)"
  using assms by (induction xs) auto

lemma stored_after_save_status:
  "(\<exists>r \<in> set (campaigns (s\<lparr>campaigns :=
        map (\<lambda>r. if campaign_id r = k then r\<lparr>status := st, updated_at := u\<rparr> else r) (campaigns s)\<rparr>)).
      campaign_id r = k') \<longleftrightarrow> (\<exists>r \<in> set (campaigns s). campaign_id r = k')"
proof -
  have "(\<exists>r \<in> set (map (\<lambda>r. if campaign_id r = k then r\<lparr>status := st, updated_at := u\<rparr> else r) (campaigns s)).
      campaign_id r = k') \<longleftrightarrow> (\<exists>r \<in> set (campaigns s). campaign_id r = k')"
    by (rule stored_after_map) simp
  then show ?thesis by simp
qed

text \<open>
  C3. A stored campaign whose status is \<open>PAUSED\<close>, whose brand is active with neither
  budget exceeded, and which is within its dayparting window (\<open>is_within_dayparting_window\<close>
  is \<open>True\<close> also when dayparting is disabled) is still \<open>PAUSED\<close> after \<open>update_status\<close>,
  in the object and in the stored row.
\<close>

theorem paused_stays_PAUSED:
  assumes "status self = PAUSED"
    and "Campaign_brand s self = Inr brand"
    and "is_active brand"
    and "\<not> daily_budget_exceeded brand" and "\<not> monthly_budget_exceeded brand"
    and "is_within_dayparting_window now self = Inr True"
    and "\<exists>r \<in> set (campaigns s). campaign_id r = campaign_id self"
  shows "\<exists>self' s'. update_status now self s = Inr (self', s')
           \<and> status self' = PAUSED
           \<and> (\<forall>r \<in> set (campaigns s'). campaign_id r = campaign_id self \<longrightarrow> status r = PAUSED)"
proof -
  have a: "assigned_status now brand self = Inr PAUSED"
    using assms(1,3-6) by (simp add: assigned_status_def)
  have stored: "\<exists>r \<in> set (campaigns s). campaign_id r = campaign_id (self\<lparr>status := PAUSED\<rparr>)"
    using assms(7) by simp
  have "update_status now self s = Campaign_save_status now (self\<lparr>status := PAUSED\<rparr>) s"
    by (simp add: update_status_unfold assms(2) a)
  then show ?thesis
    using Campaign_save_status_Inr [OF stored, of now] by auto
qed

theorem paused_stays_PAUSED_witness:
  "status (ex_campaign 1 PAUSED True) = PAUSED
   \<and> is_active (ex_brand True 0 0)
   \<and> \<not> daily_budget_exceeded (ex_brand True 0 0) \<and> \<not> monthly_budget_exceeded (ex_brand True 0 0)
   \<and> is_within_dayparting_window (ex_time 10 0) (ex_campaign 1 PAUSED True) = Inr True
   \<and> (\<exists>self' s'. update_status (ex_time 10 0) (ex_campaign 1 PAUSED True)
          \<lparr>brands = [ex_brand True 0 0], campaigns = [ex_campaign 1 PAUSED True], spends = []\<rparr>
            = Inr (self', s')
        \<and> status self' = PAUSED
        \<and> (\<forall>r \<in> set (campaigns s'). campaign_id r = campaign_id (ex_campaign 1 PAUSED True) \<longrightarrow> status r = PAUSED))"
proof -
  let ?s = "\<lparr>brands = [ex_brand True 0 0], campaigns = [ex_campaign 1 PAUSED True], spends = []\<rparr>"
  have p: "status (ex_campaign 1 PAUSED True) = PAUSED"
    by (simp add: ex_campaign_def)
  have b: "Campaign_brand ?s (ex_campaign 1 PAUSED True) = Inr (ex_brand True 0 0)"
    by (simp add: Campaign_brand_def ex_brand_def ex_campaign_def)
  have i: "is_active (ex_brand True 0 0)"
    by (simp add: ex_brand_def)
  have d: "\<not> daily_budget_exceeded (ex_brand True 0 0)"
    by (simp add: daily_budget_exceeded_def ex_brand_def)
  have m: "\<not> monthly_budget_exceeded (ex_brand True 0 0)"
    by (simp add: monthly_budget_exceeded_def ex_brand_def)
  have w: "is_within_dayparting_window (ex_time 10 0) (ex_campaign 1 PAUSED True) = Inr True"
    by (simp add: status_machine_defs ex_defs)
  have r: "\<exists>r \<in> set (campaigns ?s). campaign_id r = campaign_id (ex_campaign 1 PAUSED True)"
    by simp
  show ?thesis
    using paused_stays_PAUSED [OF p b i d m w r] p i d m w by blast
qed

text \<open>
  C9. Running \<open>update_status\<close> again on the result of a run, with the brands unchanged
  and the clock showing the same weekday and time of day, succeeds and leaves the status
  as the first run left it, in the object and in every stored row. (A run that raises
  writes nothing, so there is nothing for a second run to differ from.)
\<close>

theorem update_status_idempotent:
  assumes "update_status now self s = Inr (self1, s1)"
    and "dt_weekday now2 = dt_weekday now" "hour now2 = hour now" "minute now2 = minute now"
  shows "\<exists>self2 s2. update_status now2 self1 s1 = Inr (self2, s2)
           \<and> status self2 = status self1
           \<and> map status (campaigns s2) = map status (campaigns s1)"
proof -
  from assms(1) obtain brand st where
    b: "Campaign_brand s self = Inr brand" and
    a: "assigned_status now brand self = Inr st" and
    r: "\<exists>r \<in> set (campaigns s). campaign_id r = campaign_id self" and
    self1: "self1 = self\<lparr>status := st, updated_at := now\<rparr>" and
    s1: "s1 = s\<lparr>campaigns := map (\<lambda>r. if campaign_id r = campaign_id self
                                   then r\<lparr>status := st, updated_at := now\<rparr> else r)
                              (campaigns s)\<rparr>"
    by (rule update_status_InrD)
  have b1: "Campaign_brand s1 self1 = Inr brand"
    using b by (simp add: Campaign_brand_def self1 s1)
  have a1: "assigned_status now2 brand self1 = Inr st"
    unfolding self1 using a assms(2-4) by (rule assigned_status_again)
  have r1: "\<exists>r \<in> set (campaigns s1). campaign_id r = campaign_id (self1\<lparr>status := st\<rparr>)"
    using r unfolding s1 stored_after_save_status by (simp add: self1)
  have run: "update_status now2 self1 s1 = Campaign_save_status now2 (self1\<lparr>status := st\<rparr>) s1"
    by (simp add: update_status_unfold b1 a1)
  have st1: "status self1 = st"
    by (simp add: self1)
  have same: "map status (map (\<lambda>r. if campaign_id r = campaign_id (self1\<lparr>status := st\<rparr>)
                                   then r\<lparr>status := status (self1\<lparr>status := st\<rparr>), updated_at := now2\<rparr>
                                   else r) (campaigns s1))
        = map status (campaigns s1)"
    by (auto simp: s1 self1)
  show ?thesis
    unfolding run Campaign_save_status_Inr [OF r1] using st1 same by simp
qed

theorem update_status_idempotent_witness:
  "update_status (ex_time 10 0) (ex_campaign 1 BUDGET_EXCEEDED True)
       \<lparr>brands = [ex_brand True 0 0], campaigns = [ex_campaign 1 BUDGET_EXCEEDED True], spends = []\<rparr>
     = Inr ((ex_campaign 1 ACTIVE True)\<lparr>updated_at := ex_time 10 0\<rparr>,
            \<lparr>brands = [ex_brand True 0 0],
             campaigns = [(ex_campaign 1 ACTIVE True)\<lparr>updated_at := ex_time 10 0\<rparr>], spends = []\<rparr>)
   \<and> (\<exists>self2 s2. update_status (ex_time 10 0) ((ex_campaign 1 ACTIVE True)\<lparr>updated_at := ex_time 10 0\<rparr>)
           \<lparr>brands = [ex_brand True 0 0],
            campaigns = [(ex_campaign 1 ACTIVE True)\<lparr>updated_at := ex_time 10 0\<rparr>], spends = []\<rparr>
         = Inr (self2, s2)
        \<and> status self2 = status ((ex_campaign 1 ACTIVE True)\<lparr>updated_at := ex_time 10 0\<rparr>)
        \<and> map status (campaigns s2)
            = map status (campaigns \<lparr>brands = [ex_brand True 0 0],
                 campaigns = [(ex_campaign 1 ACTIVE True)\<lparr>updated_at := ex_time 10 0\<rparr>], spends = []\<rparr>))"
proof -
  have run: "update_status (ex_time 10 0) (ex_campaign 1 BUDGET_EXCEEDED True)
       \<lparr>brands = [ex_brand True 0 0], campaigns = [ex_campaign 1 BUDGET_EXCEEDED True], spends = []\<rparr>
     = Inr ((ex_campaign 1 ACTIVE True)\<lparr>updated_at := ex_time 10 0\<rparr>,
            \<lparr>brands = [ex_brand True 0 0],
             campaigns = [(ex_campaign 1 ACTIVE True)\<lparr>updated_at := ex_time 10 0\<rparr>], spends = []\<rparr>)"
    by (simp add: status_machine_defs ex_defs)
  show ?thesis
    using update_status_idempotent [OF run refl refl refl] run by blast
qed

text \<open>
  C10. A run of \<open>update_status\<close> leaves the brand table and the spend table as they
  were; the object and every campaign row differ from what they were at most in
  \<open>status\<close> and \<open>updated_at\<close>; rows of other campaigns are not touched at all.
\<close>

theorem update_status_frame:
  assumes "update_status now self s = Inr (self', s')"
  shows "brands s' = brands s \<and> spends s' = spends s
       \<and> self' = self\<lparr>status := status self', updated_at := updated_at self'\<rparr>
       \<and> length (campaigns s') = length (campaigns s)
       \<and> (\<forall>i < length (campaigns s).
            campaigns s' ! i = (campaigns s ! i)\<lparr>status := status (campaigns s' ! i),
                                               updated_at := updated_at (campaigns s' ! i)\<rparr>
            \<and> (campaign_id (campaigns s ! i) \<noteq> campaign_id self \<longrightarrow> campaigns s' ! i = campaigns s ! i))"
proof -
  from assms obtain brand :: Brand and st where
    self': "self' = self\<lparr>status := st, updated_at := now\<rparr>" and
    s': "s' = s\<lparr>campaigns := map (\<lambda>r. if campaign_id r = campaign_id self
                                   then r\<lparr>status := st, updated_at := now\<rparr> else r)
                              (campaigns s)\<rparr>"
    by (rule update_status_InrD)
  show ?thesis
    by (simp add: self' s')
qed

theorem update_status_frame_witness:
  "update_status (ex_time 20 30) (ex_campaign 2 ACTIVE True)
       \<lparr>brands = [ex_brand True 0 0],
        campaigns = [ex_campaign 1 PAUSED False, ex_campaign 2 ACTIVE True], spends = []\<rparr>
     = Inr ((ex_campaign 2 DAYPARTING_PAUSED True)\<lparr>updated_at := ex_time 20 30\<rparr>,
            \<lparr>brands = [ex_brand True 0 0],
             campaigns = [ex_campaign 1 PAUSED False,
                          (ex_campaign 2 DAYPARTING_PAUSED True)\<lparr>updated_at := ex_time 20 30\<rparr>],
             spends = []\<rparr>)
   \<and> (ex_campaign 2 DAYPARTING_PAUSED True)\<lparr>updated_at := ex_time 20 30\<rparr>
       = (ex_campaign 2 ACTIVE True)\<lparr>status := DAYPARTING_PAUSED, updated_at := ex_time 20 30\<rparr>"
proof -
  let ?s = "\<lparr>brands = [ex_brand True 0 0],
        campaigns = [ex_campaign 1 PAUSED False, ex_campaign 2 ACTIVE True], spends = []\<rparr>"
  let ?c' = "(ex_campaign 2 DAYPARTING_PAUSED True)\<lparr>updated_at := ex_time 20 30\<rparr>"
  let ?s' = "\<lparr>brands = [ex_brand True 0 0],
             campaigns = [ex_campaign 1 PAUSED False, ?c'], spends = []\<rparr>"
  have run: "update_status (ex_time 20 30) (ex_campaign 2 ACTIVE True) ?s = Inr (?c', ?s')"
    by (simp add: status_machine_defs ex_defs)
  have "?c' = (ex_campaign 2 ACTIVE True)\<lparr>status := status ?c', updated_at := updated_at ?c'\<rparr>"
    using update_status_frame [OF run] by blast
  then show ?thesis
    using run by (simp add: ex_campaign_def)
qed

section \<open>Dayparting: bounds and malformed schedules\<close>


lemma window_loop_append:
  "window_loop t pre = Inr False \<Longrightarrow> window_loop t (pre @ ws) = window_loop t ws"
  by (induction pre) (auto split: sum.splits if_splits)




text \<open>
  C7, as claimed, fails: a window without \<^verbatim>\<open>start\<close> raises \<^verbatim>\<open>KeyError\<close>, and so does a
  window without \<^verbatim>\<open>end\<close> whose \<^verbatim>\<open>start\<close> is not after the current time. Monday 10:00.
\<close>

theorem missing_start_raises_counterexample:
  "dayparting_enabled ((ex_campaign 1 ACTIVE True)\<lparr>dayparting_schedule := [(''monday'', [[(''end'', ''17:00'')]])]\<rparr>)
   \<and> is_within_dayparting_window (ex_time 10 0)
       ((ex_campaign 1 ACTIVE True)\<lparr>dayparting_schedule := [(''monday'', [[(''end'', ''17:00'')]])]\<rparr>)
     = Inl (KeyError ''start'')
   \<and> is_within_dayparting_window (ex_time 10 0)
       ((ex_campaign 1 ACTIVE True)\<lparr>dayparting_schedule := [(''monday'', [[(''start'', ''09:00'')]])]\<rparr>)
     = Inl (KeyError ''end'')"
  by (simp add: status_machine_defs ex_defs)

text \<open>
  C7, amended. For a dayparting-enabled campaign whose schedule has no key for the
  current weekday, \<open>is_within_dayparting_window\<close> returns false and does not raise; an
  entry under any other key (an unknown key included) does not change the result. A
  window with a missing field is not skipped: when the loop reaches a window without
  \<^verbatim>\<open>start\<close> it raises \<^verbatim>\<open>KeyError('start')\<close>; when it reaches one with \<^verbatim>\<open>start\<close> but without
  \<^verbatim>\<open>end\<close> it raises \<^verbatim>\<open>KeyError('end')\<close> if \<^verbatim>\<open>start <= HH:MM\<close> and goes on to the next
  window otherwise.
\<close>

theorem absent_day_is_closed:
  "(dayparting_enabled self
      \<and> map_of (dayparting_schedule self) (strftime_A_lower (dt_weekday now)) = None
    \<longrightarrow> is_within_dayparting_window now self = Inr False)
   \<and> (k \<noteq> strftime_A_lower (dt_weekday now)
    \<longrightarrow> is_within_dayparting_window now (self\<lparr>dayparting_schedule := (k, v) # dayparting_schedule self\<rparr>)
          = is_within_dayparting_window now self)
   \<and> (dayparting_enabled self
      \<and> map_of (dayparting_schedule self) (strftime_A_lower (dt_weekday now)) = Some (pre @ w # post)
      \<and> window_loop (strftime_HM now) pre = Inr False
    \<longrightarrow> (map_of w ''start'' = None \<longrightarrow> is_within_dayparting_window now self = Inl (KeyError ''start''))
      \<and> (\<forall>start. map_of w ''start'' = Some start \<and> map_of w ''end'' = None \<longrightarrow>
            is_within_dayparting_window now self
              = (if start \<le> strftime_HM now then Inl (KeyError ''end'')
                 else window_loop (strftime_HM now) post)))"
proof -
  have absent: "dayparting_enabled self
      \<and> map_of (dayparting_schedule self) (strftime_A_lower (dt_weekday now)) = None
    \<longrightarrow> is_within_dayparting_window now self = Inr False"
    by (simp add: is_within_dayparting_window_def get_default_def)
  have unknown: "k \<noteq> strftime_A_lower (dt_weekday now)
    \<longrightarrow> is_within_dayparting_window now (self\<lparr>dayparting_schedule := (k, v) # dayparting_schedule self\<rparr>)
          = is_within_dayparting_window now self"
    by (simp add: is_within_dayparting_window_def get_default_def)
  have reached: "is_within_dayparting_window now self = window_loop (strftime_HM now) (w # post)"
    if "dayparting_enabled self"
      and "map_of (dayparting_schedule self) (strftime_A_lower (dt_weekday now)) = Some (pre @ w # post)"
      and "window_loop (strftime_HM now) pre = Inr False"
    using that by (simp add: is_within_dayparting_window_def get_default_def window_loop_append)
  have missing: "dayparting_enabled self
      \<and> map_of (dayparting_schedule self) (strftime_A_lower (dt_weekday now)) = Some (pre @ w # post)
      \<and> window_loop (strftime_HM now) pre = Inr False
    \<longrightarrow> (map_of w ''start'' = None \<longrightarrow> is_within_dayparting_window now self = Inl (KeyError ''start''))
      \<and> (\<forall>start. map_of w ''start'' = Some start \<and> map_of w ''end'' = None \<longrightarrow>
            is_within_dayparting_window now self
              = (if start \<le> strftime_HM now then Inl (KeyError ''end'')
                 else window_loop (strftime_HM now) post))"
    using reached by (auto simp: getitem_def)
  show ?thesis
    using absent unknown missing by blast
qed

theorem absent_day_is_closed_witness:
  "dayparting_enabled (ex_campaign 1 ACTIVE True)
   \<and> map_of (dayparting_schedule (ex_campaign 1 ACTIVE True)) (strftime_A_lower (dt_weekday ex_tuesday)) = None
   \<and> is_within_dayparting_window ex_tuesday (ex_campaign 1 ACTIVE True) = Inr False
   \<and> ''funday'' \<noteq> strftime_A_lower (dt_weekday ex_tuesday)
   \<and> is_within_dayparting_window ex_tuesday
        ((ex_campaign 1 ACTIVE True)\<lparr>dayparting_schedule :=
            (''funday'', [[(''start'', ''00:00''), (''end'', ''23:59'')]])
              # dayparting_schedule (ex_campaign 1 ACTIVE True)\<rparr>) = Inr False
   \<and> map_of (dayparting_schedule
          ((ex_campaign 1 ACTIVE True)\<lparr>dayparting_schedule :=
              [(''monday'', [[(''start'', ''12:00''), (''end'', ''13:00'')], [(''end'', ''17:00'')]])]\<rparr>))
        (strftime_A_lower (dt_weekday (ex_time 10 0)))
       = Some ([[(''start'', ''12:00''), (''end'', ''13:00'')]] @ [(''end'', ''17:00'')] # [])
   \<and> window_loop (strftime_HM (ex_time 10 0)) [[(''start'', ''12:00''), (''end'', ''13:00'')]] = Inr False
   \<and> map_of [(''end'', ''17:00'')] ''start'' = None
   \<and> is_within_dayparting_window (ex_time 10 0)
        ((ex_campaign 1 ACTIVE True)\<lparr>dayparting_schedule :=
              [(''monday'', [[(''start'', ''12:00''), (''end'', ''13:00'')], [(''end'', ''17:00'')]])]\<rparr>)
       = Inl (KeyError ''start'')"
proof -
  let ?c = "ex_campaign 1 ACTIVE True"
  let ?bad = "?c\<lparr>dayparting_schedule :=
              [(''monday'', [[(''start'', ''12:00''), (''end'', ''13:00'')], [(''end'', ''17:00'')]])]\<rparr>"
  have e: "dayparting_enabled ?c"
    by (simp add: ex_campaign_def)
  have a: "map_of (dayparting_schedule ?c) (strftime_A_lower (dt_weekday ex_tuesday)) = None"
    by (simp add: ex_campaign_def ex_tuesday_def)
  have k: "''funday'' \<noteq> strftime_A_lower (dt_weekday ex_tuesday)"
    by (simp add: ex_tuesday_def)
  have e': "dayparting_enabled ?bad"
    by (simp add: ex_campaign_def)
  have d: "map_of (dayparting_schedule ?bad) (strftime_A_lower (dt_weekday (ex_time 10 0)))
       = Some ([[(''start'', ''12:00''), (''end'', ''13:00'')]] @ [(''end'', ''17:00'')] # [])"
    by (simp add: ex_time_def)
  have p: "window_loop (strftime_HM (ex_time 10 0)) [[(''start'', ''12:00''), (''end'', ''13:00'')]] = Inr False"
    by (simp add: strftime_HM_def ex_time_def two_digits_def digit_char_def getitem_def)
  have m: "map_of [(''end'', ''17:00'')] ''start'' = None"
    by simp
  have first: "is_within_dayparting_window ex_tuesday ?c = Inr False
     \<and> is_within_dayparting_window ex_tuesday
          (?c\<lparr>dayparting_schedule := (''funday'', [[(''start'', ''00:00''), (''end'', ''23:59'')]])
              # dayparting_schedule ?c\<rparr>) = Inr False"
    using absent_day_is_closed [of ?c ex_tuesday "''funday''" "[[(''start'', ''00:00''), (''end'', ''23:59'')]]"] e a k
    by simp
  have second: "is_within_dayparting_window (ex_time 10 0) ?bad = Inl (KeyError ''start'')"
    using absent_day_is_closed [of ?bad "ex_time 10 0" _ _ "[[(''start'', ''12:00''), (''end'', ''13:00'')]]"
        "[(''end'', ''17:00'')]" "[]"] e' d p m
    by blast
  show ?thesis
    using e a k d p m first second by blast
qed

section \<open>Spend totals\<close>
















section \<open>Negative amounts\<close>

text \<open>
  C4 fails on the code. \<open>record_ad_spend\<close> creates the event through
  \<^verbatim>\<open>AdSpend.objects.create\<close>, which runs no validator, and tests the amount nowhere; the
  creation above succeeds for every amount. Recording -5.00: the validator declared on
  the field rejects the amount, and the call returns the created event, with the
  campaign's and the brand's totals at -5.00.
\<close>

theorem negative_spend_is_recorded:
  "\<not> amount_validators (- 500)
   \<and> record_ad_spend (ex_time 10 0) 1 (- 500) ''refund''
       \<lparr>brands = [ex_brand True 0 0], campaigns = [ex_campaign 1 ACTIVE False], spends = []\<rparr>
     = (Inr \<lparr>pk = Some 1, spend_campaign_id = 1, amount = - 500, timestamp = ex_time 10 0,
             description = ''refund''\<rparr>,
        \<lparr>brands = [(ex_brand True (- 500) (- 500))\<lparr>brand_updated_at := ex_time 10 0\<rparr>],
         campaigns = [(ex_campaign 1 ACTIVE False)\<lparr>daily_spend := - 500, monthly_spend := - 500,
                                                  updated_at := ex_time 10 0\<rparr>],
         spends = [\<lparr>pk = Some 1, spend_campaign_id = 1, amount = - 500, timestamp = ex_time 10 0,
                    description = ''refund''\<rparr>]\<rparr>)"
  by (simp add: amount_validators_def record_defs status_machine_defs ex_defs Let_def)

section \<open>The status sweep\<close>

text \<open>
  The class \<^verbatim>\<open>Campaign\<close> has none of the four \<^verbatim>\<open>STATUS_...\<close> attributes, so the first
  comparison after a change of status raises; a sweep that returns has counted nothing.
\<close>

lemma track_change_raises:
  "old_status \<noteq> status campaign \<Longrightarrow>
   track_change old_status campaign sc = Inl (AttributeError ''STATUS_ACTIVE'')"
  by (simp add: track_change_def Campaign_getattr_def Campaign_class_dict_def)

lemma track_change_Inr:
  "track_change old_status campaign sc = Inr sc' \<Longrightarrow> sc' = sc \<and> old_status = status campaign"
  by (cases "old_status = status campaign") (simp_all add: track_change_raises, simp add: track_change_def)

lemma status_sweep_loop_tally:
  "status_sweep_loop now cs sc s = (Inr sc', s') \<Longrightarrow> sc' = sc"
proof (induction cs arbitrary: sc s)
  case Nil
  then show ?case by simp
next
  case (Cons c cs)
  then show ?case
    by (auto simp: Let_def split: sum.splits prod.splits dest: track_change_Inr)
qed

text \<open>
  C5 fails on the code. One campaign, \<open>ACTIVE\<close>, of a brand that has spent 120.00 of its
  daily 100.00: the sweep saves \<open>BUDGET_EXCEEDED\<close> and then raises \<^verbatim>\<open>AttributeError\<close>
  instead of returning a tally.
\<close>

theorem status_sweep_raises_AttributeError:
  "check_and_update_campaign_statuses (ex_time 10 0)
     \<lparr>brands = [ex_brand True 12000 12000], campaigns = [ex_campaign 1 ACTIVE False], spends = []\<rparr>
   = (Inl (AttributeError ''STATUS_ACTIVE''),
      \<lparr>brands = [ex_brand True 12000 12000],
       campaigns = [(ex_campaign 1 BUDGET_EXCEEDED False)\<lparr>updated_at := ex_time 10 0\<rparr>],
       spends = []\<rparr>)"
  by (simp add: sweep_defs status_machine_defs ex_defs)

section \<open>The monthly reset in dry-run mode\<close>

text \<open>
  A dry run writes nothing. It judges each \<open>BUDGET_EXCEEDED\<close> campaign by
  \<open>should_be_active\<close> on the stored spend, which the dry run has not cleared: a campaign
  whose brand is over its monthly budget is never counted.
\<close>

lemma reactivation_loop_dry_run_store:
  "snd (reactivation_loop now True cs n s) = s"
  by (induction cs arbitrary: n) (auto simp: Let_def split: sum.splits)

lemma handle_dry_run_store: "snd (handle now True s) = s"
proof -
  obtain r s' where run: "reactivation_loop now True (campaigns s) 0 s = (r, s')"
    by (cases "reactivation_loop now True (campaigns s) 0 s")
  then have "s' = s"
    using reactivation_loop_dry_run_store [of now "campaigns s" 0 s] by simp
  then show ?thesis
    using run by (cases r) (simp_all add: handle_def)
qed

lemma should_be_active_exceeded:
  "Campaign_brand s c = Inr b \<Longrightarrow> monthly_budget_exceeded b \<Longrightarrow> should_be_active now c s = Inr False"
  by (simp add: should_be_active_def)

text \<open>
  C6 fails on the code in its scenario. On \<open>ex_exceeded_store\<close> the dry run leaves the
  store as it is and reports 0 campaigns to reactivate; the real run on the same store
  reactivates 1.
\<close>

theorem dry_run_reports_no_reactivation:
  "handle (ex_time 0 0) True ex_exceeded_store
     = (Inr \<lparr>brands_updated = 1, campaigns_updated = 3, reactivated_count = 0\<rparr>, ex_exceeded_store)
   \<and> fst (handle (ex_time 0 0) False ex_exceeded_store)
     = Inr \<lparr>brands_updated = 1, campaigns_updated = 3, reactivated_count = 1\<rparr>"
  by (simp add: reset_defs ex_exceeded_store_def status_machine_defs ex_defs)

end
